theory Spec2Isabelle
  imports Complex_Main
begin

section \<open>Python values shared by the modules\<close>

text \<open>
  The exceptions the modelled code can raise. A \<open>TypeError\<close> comes from the
  interpreter (a call that leaves a required parameter without an argument, a call with
  too many arguments, the instantiation of a class that still has abstract methods); its
  payload says which. The other exceptions carry the message given in the source.
  \<open>ImportError\<close> is what \<open>require_version\<close> raises for an unmet requirement
  (its \<open>PackageNotFoundError\<close> is a subclass of \<open>ImportError\<close>).
\<close>

datatype type_error =
    MissingArgument string
  | TooManyArguments
  | AbstractInstantiation "string list"

datatype error =
    TypeError type_error
  | ValueError string
  | AssertionError string
  | ImportError string

text \<open>
  A keyword argument of a call: left out by the caller, or given. Passing \<open>None\<close>
  explicitly is \<open>Given None\<close>, which differs from leaving the argument out whenever
  the default is not \<open>None\<close> or the parameter has no default at all.
\<close>

datatype 'a arg = Omitted | Given 'a

fun or_default :: "'a arg \<Rightarrow> 'a \<Rightarrow> 'a" where
  "or_default Omitted d = d"
| "or_default (Given v) d = v"

text \<open>
  \<open>str.split(sep)\<close> for a one-character separator: the pieces between the separators,
  empty pieces included; the result is never the empty list (\<open>"".split(".") == [""]\<close>).
\<close>

fun split_str :: "char \<Rightarrow> string \<Rightarrow> string list" where
  "split_str sep [] = [[]]"
| "split_str sep (c # cs) =
     (if c = sep then [] # split_str sep cs
      else (c # hd (split_str sep cs)) # tl (split_str sep cs))"

section \<open>config.py: DataTrainingArguments\<close>

record DataTrainingArguments =
  dataset_name :: "string option"
  dataset_config_name :: "string option"
  train_file :: "string option"
  validation_file :: "string option"
  max_train_samples :: "int option"
  max_eval_samples :: "int option"
  max_source_length :: "int option"
  max_target_length :: "int option"
  streaming :: bool
  overwrite_cache :: bool
  validation_split_percentage :: "int option"
  preprocessing_num_workers :: "int option"

text \<open>The keyword arguments of the constructor the dataclass generates, one per field.\<close>

record DataTrainingArguments_kwargs =
  dt_dataset_name :: "string option arg"
  dt_dataset_config_name :: "string option arg"
  dt_train_file :: "string option arg"
  dt_validation_file :: "string option arg"
  dt_max_train_samples :: "int option arg"
  dt_max_eval_samples :: "int option arg"
  dt_max_source_length :: "int option arg"
  dt_max_target_length :: "int option arg"
  dt_streaming :: "bool arg"
  dt_overwrite_cache :: "bool arg"
  dt_validation_split_percentage :: "int option arg"
  dt_preprocessing_num_workers :: "int option arg"

definition DataTrainingArguments_no_kwargs :: DataTrainingArguments_kwargs where
  "DataTrainingArguments_no_kwargs =
     \<lparr>dt_dataset_name = Omitted, dt_dataset_config_name = Omitted, dt_train_file = Omitted,
      dt_validation_file = Omitted, dt_max_train_samples = Omitted,
      dt_max_eval_samples = Omitted, dt_max_source_length = Omitted,
      dt_max_target_length = Omitted, dt_streaming = Omitted, dt_overwrite_cache = Omitted,
      dt_validation_split_percentage = Omitted, dt_preprocessing_num_workers = Omitted\<rparr>"

text \<open>The field assignments of the generated \<open>__init__\<close>, with the declared defaults.\<close>

definition DataTrainingArguments_fields ::
  "DataTrainingArguments_kwargs \<Rightarrow> DataTrainingArguments" where
  "DataTrainingArguments_fields kw =
     \<lparr>dataset_name = or_default (dt_dataset_name kw) None,
      dataset_config_name = or_default (dt_dataset_config_name kw) None,
      train_file = or_default (dt_train_file kw) None,
      validation_file = or_default (dt_validation_file kw) None,
      max_train_samples = or_default (dt_max_train_samples kw) None,
      max_eval_samples = or_default (dt_max_eval_samples kw) None,
      max_source_length = or_default (dt_max_source_length kw) (Some 512),
      max_target_length = or_default (dt_max_target_length kw) (Some 256),
      streaming = or_default (dt_streaming kw) False,
      overwrite_cache = or_default (dt_overwrite_cache kw) False,
      validation_split_percentage = or_default (dt_validation_split_percentage kw) (Some 1),
      preprocessing_num_workers = or_default (dt_preprocessing_num_workers kw) None\<rparr>"

text \<open>
  \<open>path.split(".")[-1]\<close>: the text after the last dot, the whole path when it has no
  dot. The index \<open>-1\<close> is always in range, since \<open>split\<close> returns at least one piece.
\<close>

definition file_extension :: "string \<Rightarrow> string" where
  "file_extension path = last (split_str CHR ''.'' path)"

text \<open>
  The statement \<open>assert condition, message\<close>. The interpreter compiles it to a test
  of the condition only when its constant \<open>__debug__\<close> is true, which it is unless
  Python runs with \<open>-O\<close> (or \<open>PYTHONOPTIMIZE\<close>); otherwise the statement is
  dropped and does nothing. The parameter \<open>debug\<close> is the value of \<open>__debug__\<close>.
\<close>

definition py_assert :: "bool \<Rightarrow> bool \<Rightarrow> string \<Rightarrow> error + unit" where
  "py_assert debug condition msg =
     (if debug \<and> \<not> condition then Inl (AssertionError msg) else Inr ())"

text \<open>
  One of the two extension checks of \<open>__post_init__\<close>, which differ in the field and
  in the message only: nothing happens for an unset file, the assertion runs for a set one.
\<close>

definition assert_extension :: "bool \<Rightarrow> string \<Rightarrow> string option \<Rightarrow> error + unit" where
  "assert_extension debug msg file =
     (case file of
        None \<Rightarrow> Inr ()
      | Some path \<Rightarrow>
          py_assert debug (file_extension path \<in> set [''csv'', ''json'', ''txt'']) msg)"

text \<open>
  \<open>require_version\<close> belongs to the transformers library, so it is a parameter: for a
  requirement and a hint it yields \<open>None\<close> when the installed package meets the
  requirement, and the message of the \<open>ImportError\<close> it raises otherwise.
\<close>

type_synonym version_check = "string \<Rightarrow> string \<Rightarrow> string option"

definition datasets_requirement :: "version_check \<Rightarrow> string option" where
  "datasets_requirement require_version =
     require_version ''datasets>=2.0.0''
       ''The streaming feature requires `datasets>=2.0.0`''"

definition DataTrainingArguments_post_init ::
  "bool \<Rightarrow> version_check \<Rightarrow> DataTrainingArguments \<Rightarrow> error + unit" where
  "DataTrainingArguments_post_init debug require_version self =
     (case (if streaming self then datasets_requirement require_version else None) of
        Some msg \<Rightarrow> Inl (ImportError msg)
      | None \<Rightarrow>
          if dataset_name self = None \<and> train_file self = None \<and> validation_file self = None
          then Inl (ValueError ''Need either a dataset name or a training/validation file.'')
          else
            (case assert_extension debug
                    ''`train_file` should be a csv, a json or a txt file.''
                    (train_file self) of
               Inl e \<Rightarrow> Inl e
             | Inr _ \<Rightarrow>
                 assert_extension debug
                   ''`validation_file` should be a csv, a json or a txt file.''
                   (validation_file self)))"

definition DataTrainingArguments_init ::
  "bool \<Rightarrow> version_check \<Rightarrow> DataTrainingArguments_kwargs
     \<Rightarrow> error + DataTrainingArguments" where
  "DataTrainingArguments_init debug require_version kw =
     (let self = DataTrainingArguments_fields kw
      in case DataTrainingArguments_post_init debug require_version self of
           Inl e \<Rightarrow> Inl e
         | Inr _ \<Rightarrow> Inr self)"

text \<open>Two collaborators for concrete runs: one meets every requirement, one meets none.\<close>

definition version_available :: version_check where
  "version_available requirement hint = None"

definition version_missing :: version_check where
  "version_missing requirement hint = Some hint"

text \<open>
  The words of the specification about a construction: no data source at all; a file that
  is set and whose extension is outside csv, json and txt; a valid data source (some
  source is given and no file has such an extension).
\<close>

definition no_data_source :: "DataTrainingArguments \<Rightarrow> bool" where
  "no_data_source self \<longleftrightarrow>
     dataset_name self = None \<and> train_file self = None \<and> validation_file self = None"

definition bad_extension :: "string option \<Rightarrow> bool" where
  "bad_extension file =
     (case file of
        None \<Rightarrow> False
      | Some path \<Rightarrow> file_extension path \<notin> set [''csv'', ''json'', ''txt''])"

definition valid_data_source :: "DataTrainingArguments \<Rightarrow> bool" where
  "valid_data_source self \<longleftrightarrow>
     \<not> no_data_source self \<and> \<not> bad_extension (train_file self)
     \<and> \<not> bad_extension (validation_file self)"

fun is_AssertionError :: "error + 'a \<Rightarrow> bool" where
  "is_AssertionError (Inl (AssertionError msg)) = True"
| "is_AssertionError r = False"

section \<open>config.py: ModelArguments\<close>

record ModelArguments =
  model_name_or_path :: string
  config_name :: "string option"
  tokenizer_name :: "string option"
  cache_dir :: "string option"
  use_fast_tokenizer :: bool
  model_revision :: string
  use_auth_token :: bool

record ModelArguments_kwargs =
  ma_model_name_or_path :: "string arg"
  ma_config_name :: "string option arg"
  ma_tokenizer_name :: "string option arg"
  ma_cache_dir :: "string option arg"
  ma_use_fast_tokenizer :: "bool arg"
  ma_model_revision :: "string arg"
  ma_use_auth_token :: "bool arg"

definition ModelArguments_no_kwargs :: ModelArguments_kwargs where
  "ModelArguments_no_kwargs =
     \<lparr>ma_model_name_or_path = Omitted, ma_config_name = Omitted, ma_tokenizer_name = Omitted,
      ma_cache_dir = Omitted, ma_use_fast_tokenizer = Omitted, ma_model_revision = Omitted,
      ma_use_auth_token = Omitted\<rparr>"

text \<open>
  The field \<open>model_name_or_path\<close> is declared without a default, so the generated
  \<open>__init__\<close> has it as a required parameter: a call that leaves it out raises
  \<open>TypeError\<close> before any field is assigned.
\<close>

definition ModelArguments_init :: "ModelArguments_kwargs \<Rightarrow> error + ModelArguments" where
  "ModelArguments_init kw =
     (case ma_model_name_or_path kw of
        Omitted \<Rightarrow> Inl (TypeError (MissingArgument ''model_name_or_path''))
      | Given name \<Rightarrow>
          Inr \<lparr>model_name_or_path = name,
               config_name = or_default (ma_config_name kw) None,
               tokenizer_name = or_default (ma_tokenizer_name kw) None,
               cache_dir = or_default (ma_cache_dir kw) None,
               use_fast_tokenizer = or_default (ma_use_fast_tokenizer kw) True,
               model_revision = or_default (ma_model_revision kw) ''main'',
               use_auth_token = or_default (ma_use_auth_token kw) False\<rparr>)"

section \<open>config.py: FinetuneArguments\<close>

text \<open>
  Lists are mutable objects, and the default of \<open>lora_target_modules\<close> is made by a
  factory, so the field holds a reference into a store of list objects. The store is the
  list of all list objects made so far; a reference is a position in it, and a new object
  is put at the end.
\<close>

type_synonym ref = nat
type_synonym heap = "string list list"

definition new_list :: "string list \<Rightarrow> heap \<Rightarrow> ref \<times> heap" where
  "new_list v h = (length h, h @ [v])"

definition deref :: "heap \<Rightarrow> ref \<Rightarrow> string list option" where
  "deref h r = (if r < length h then Some (h ! r) else None)"

text \<open>
  A finite Python float is modelled by the real number it denotes. The literal \<open>0.1\<close>
  denotes the double nearest to one tenth, \<open>3602879701896397 / 2 ^ 55\<close>.
\<close>

definition float_0_1 :: real where
  "float_0_1 = 3602879701896397 / 36028797018963968"

record FinetuneArguments =
  lora_rank :: int
  lora_alpha :: int
  lora_dropout :: real
  lora_target_modules :: ref
  peft :: "string option"

record FinetuneArguments_kwargs =
  ft_lora_rank :: "int arg"
  ft_lora_alpha :: "int arg"
  ft_lora_dropout :: "real arg"
  ft_lora_target_modules :: "ref arg"
  ft_peft :: "string option arg"

definition FinetuneArguments_no_kwargs :: FinetuneArguments_kwargs where
  "FinetuneArguments_no_kwargs =
     \<lparr>ft_lora_rank = Omitted, ft_lora_alpha = Omitted, ft_lora_dropout = Omitted,
      ft_lora_target_modules = Omitted, ft_peft = Omitted\<rparr>"

text \<open>
  The class has no \<open>__post_init__\<close>: the generated \<open>__init__\<close> stores what it is given
  and cannot fail. The factory \<open>lambda: ["q", "v"]\<close> runs only when the argument is
  left out.
\<close>

definition FinetuneArguments_init ::
  "FinetuneArguments_kwargs \<Rightarrow> heap \<Rightarrow> FinetuneArguments \<times> heap" where
  "FinetuneArguments_init kw h =
     (let (modules, h') =
            (case ft_lora_target_modules kw of
               Omitted \<Rightarrow> new_list [''q'', ''v''] h
             | Given r \<Rightarrow> (r, h))
      in (\<lparr>lora_rank = or_default (ft_lora_rank kw) 8,
           lora_alpha = or_default (ft_lora_alpha kw) 32,
           lora_dropout = or_default (ft_lora_dropout kw) float_0_1,
           lora_target_modules = modules,
           peft = or_default (ft_peft kw) (Some ''lora'')\<rparr>, h'))"

section \<open>config.py: FinetuningConfig and OptimizationConfig\<close>

text \<open>
  \<open>TrainingArguments\<close> is a class of the transformers library; its objects are of an
  arbitrary type \<open>'ta\<close>.
\<close>

record 'ta FinetuningConfig =
  model_args :: ModelArguments
  data_args :: DataTrainingArguments
  training_args :: 'ta
  finetune_args :: FinetuneArguments

definition FinetuningConfig_init ::
  "ModelArguments \<Rightarrow> DataTrainingArguments \<Rightarrow> 'ta \<Rightarrow> FinetuneArguments
     \<Rightarrow> 'ta FinetuningConfig" where
  "FinetuningConfig_init m d t f =
     \<lparr>model_args = m, data_args = d, training_args = t, finetune_args = f\<rparr>"

text \<open>
  Dictionaries are mutable objects as well; they live in a store of their own. A
  dictionary is an association list from names to settings that this code only stores.
\<close>

type_synonym settings = "(string \<times> string) list"
type_synonym dict_heap = "settings list"

definition new_dict :: "settings \<Rightarrow> dict_heap \<Rightarrow> ref \<times> dict_heap" where
  "new_dict v dh = (length dh, dh @ [v])"

definition deref_dict :: "dict_heap \<Rightarrow> ref \<Rightarrow> settings option" where
  "deref_dict dh r = (if r < length dh then Some (dh ! r) else None)"

text \<open>
  The defaults \<open>excluded_precisions=[]\<close> and \<open>recipes={}\<close> are evaluated once, when
  the \<open>def\<close> statement of \<open>__init__\<close> runs: one list and one dictionary are made
  then, and every later call that leaves the argument out gets these same two objects.
  Their references are kept with the function.
\<close>

record OptimizationConfig_defaults =
  excluded_precisions_default :: ref
  recipes_default :: ref

definition OptimizationConfig_def ::
  "heap \<Rightarrow> dict_heap \<Rightarrow> OptimizationConfig_defaults \<times> heap \<times> dict_heap" where
  "OptimizationConfig_def h dh =
     (let (l, h') = new_list [] h; (d, dh') = new_dict [] dh
      in (\<lparr>excluded_precisions_default = l, recipes_default = d\<rparr>, h', dh'))"

record OptimizationConfig =
  mode :: string
  device :: string
  backend :: string
  approach :: string
  precision :: string
  excluded_precisions :: ref
  op_type_dict :: "ref option"
  op_name_dict :: "ref option"
  recipes :: ref

record OptimizationConfig_kwargs =
  oc_mode :: "string arg"
  oc_device :: "string arg"
  oc_backend :: "string arg"
  oc_approach :: "string arg"
  oc_precision :: "string arg"
  oc_excluded_precisions :: "ref arg"
  oc_op_type_dict :: "ref option arg"
  oc_op_name_dict :: "ref option arg"
  oc_recipes :: "ref arg"

definition OptimizationConfig_no_kwargs :: OptimizationConfig_kwargs where
  "OptimizationConfig_no_kwargs =
     \<lparr>oc_mode = Omitted, oc_device = Omitted, oc_backend = Omitted, oc_approach = Omitted,
      oc_precision = Omitted, oc_excluded_precisions = Omitted, oc_op_type_dict = Omitted,
      oc_op_name_dict = Omitted, oc_recipes = Omitted\<rparr>"

text \<open>
  The constructor stores the objects it is given, or the shared default objects; it makes
  no object and changes none.
\<close>

definition OptimizationConfig_init ::
  "OptimizationConfig_defaults \<Rightarrow> OptimizationConfig_kwargs \<Rightarrow> OptimizationConfig" where
  "OptimizationConfig_init defaults kw =
     \<lparr>mode = or_default (oc_mode kw) ''latency'',
      device = or_default (oc_device kw) ''cpu'',
      backend = or_default (oc_backend kw) ''ipex'',
      approach = or_default (oc_approach kw) ''static'',
      precision = or_default (oc_precision kw) ''bf16'',
      excluded_precisions =
        or_default (oc_excluded_precisions kw) (excluded_precisions_default defaults),
      op_type_dict = or_default (oc_op_type_dict kw) None,
      op_name_dict = or_default (oc_op_name_dict kw) None,
      recipes = or_default (oc_recipes kw) (recipes_default defaults)\<rparr>"

section \<open>config.py: NeuralChatConfig\<close>

record 'ta NeuralChatConfig =
  chat_model_name_or_path :: string
  inputs :: "string option"
  chat_device :: string
  chat_backend :: string
  retrieval :: bool
  retrieval_type :: "string option"
  txt2Image :: bool
  audio_input :: bool
  audio_output :: bool
  server_mode :: bool
  finetune_config :: "'ta FinetuningConfig"
  optimize_config :: OptimizationConfig
  use_hpu_graphs :: bool

record 'ta NeuralChatConfig_kwargs =
  nc_model_name_or_path :: "string arg"
  nc_inputs :: "string option arg"
  nc_device :: "string arg"
  nc_backend :: "string arg"
  nc_retrieval :: "bool arg"
  nc_retrieval_type :: "string option arg"
  nc_txt2Image :: "bool arg"
  nc_audio_input :: "bool arg"
  nc_audio_output :: "bool arg"
  nc_server_mode :: "bool arg"
  nc_finetune_config :: "'ta FinetuningConfig option arg"
  nc_optimize_config :: "OptimizationConfig option arg"
  nc_use_hpu_graphs :: "bool arg"

definition NeuralChatConfig_no_kwargs :: "'ta NeuralChatConfig_kwargs" where
  "NeuralChatConfig_no_kwargs =
     \<lparr>nc_model_name_or_path = Omitted, nc_inputs = Omitted, nc_device = Omitted,
      nc_backend = Omitted, nc_retrieval = Omitted, nc_retrieval_type = Omitted,
      nc_txt2Image = Omitted, nc_audio_input = Omitted, nc_audio_output = Omitted,
      nc_server_mode = Omitted, nc_finetune_config = Omitted, nc_optimize_config = Omitted,
      nc_use_hpu_graphs = Omitted\<rparr>"

text \<open>
  The expression after \<open>else\<close> in the assignment of \<open>self.finetune_config\<close>. The
  keyword arguments of a call are evaluated from left to right, and the first exception
  ends the evaluation. \<open>TrainingArguments()\<close> is the library's constructor called
  without arguments; its outcome is the parameter \<open>training_arguments\<close>.
\<close>

definition default_finetune_config ::
  "bool \<Rightarrow> version_check \<Rightarrow> error + 'ta \<Rightarrow> heap
     \<Rightarrow> (error + 'ta FinetuningConfig) \<times> heap" where
  "default_finetune_config debug require_version training_arguments h =
     (case ModelArguments_init ModelArguments_no_kwargs of
        Inl e \<Rightarrow> (Inl e, h)
      | Inr m \<Rightarrow>
          (case DataTrainingArguments_init debug require_version
                  DataTrainingArguments_no_kwargs of
             Inl e \<Rightarrow> (Inl e, h)
           | Inr d \<Rightarrow>
               (case training_arguments of
                  Inl e \<Rightarrow> (Inl e, h)
                | Inr t \<Rightarrow>
                    (let (f, h') = FinetuneArguments_init FinetuneArguments_no_kwargs h
                     in (Inr (FinetuningConfig_init m d t f), h')))))"

text \<open>
  Neither config class defines \<open>__bool__\<close> or \<open>__len__\<close>, so a config object is
  true and \<open>None\<close> is false in the two conditional expressions.
  \<open>OptimizationConfig()\<close> takes its list and dictionary from the shared defaults.
\<close>

definition NeuralChatConfig_init ::
  "bool \<Rightarrow> version_check \<Rightarrow> error + 'ta \<Rightarrow> OptimizationConfig_defaults
     \<Rightarrow> 'ta NeuralChatConfig_kwargs \<Rightarrow> heap \<Rightarrow> (error + 'ta NeuralChatConfig) \<times> heap" where
  "NeuralChatConfig_init debug require_version training_arguments defaults kw h =
     (case (case or_default (nc_finetune_config kw) None of
              Some fc \<Rightarrow> (Inr fc, h)
            | None \<Rightarrow>
                default_finetune_config debug require_version training_arguments h) of
        (Inl e, h') \<Rightarrow> (Inl e, h')
      | (Inr fc, h') \<Rightarrow>
          (Inr \<lparr>chat_model_name_or_path =
                  or_default (nc_model_name_or_path kw) ''meta-llama/Llama-2-70b-hf'',
                inputs = or_default (nc_inputs kw) None,
                chat_device = or_default (nc_device kw) ''auto'',
                chat_backend = or_default (nc_backend kw) ''auto'',
                retrieval = or_default (nc_retrieval kw) False,
                retrieval_type = or_default (nc_retrieval_type kw) None,
                txt2Image = or_default (nc_txt2Image kw) False,
                audio_input = or_default (nc_audio_input kw) False,
                audio_output = or_default (nc_audio_output kw) False,
                server_mode = or_default (nc_server_mode kw) True,
                finetune_config = fc,
                optimize_config =
                  (case or_default (nc_optimize_config kw) None of
                     Some oc \<Rightarrow> oc
                   | None \<Rightarrow> OptimizationConfig_init defaults OptimizationConfig_no_kwargs),
                use_hpu_graphs = or_default (nc_use_hpu_graphs kw) False\<rparr>, h'))"

section \<open>models/base_model.py: BaseModel\<close>

text \<open>
  A method with one parameter besides \<open>self\<close>: the parameter's name, its default when
  it has one, and the body. The abstract method is declared as
  \<open>def init_model(self, config)\<close>, that is \<open>Method ''config'' None body\<close>.
\<close>

datatype ('c, 'a) py_method =
  Method (param_name: string) (param_default: "'c option") (body: "'c \<Rightarrow> error + 'a")

text \<open>Binding the positional arguments of a call to the parameter.\<close>

fun bind_args :: "('c, 'a) py_method \<Rightarrow> 'c list \<Rightarrow> type_error + 'c" where
  "bind_args m [] =
     (case param_default m of
        None \<Rightarrow> Inl (MissingArgument (param_name m))
      | Some d \<Rightarrow> Inr d)"
| "bind_args m [a] = Inr a"
| "bind_args m (a # b # rest) = Inl TooManyArguments"

text \<open>
  A subclass of \<open>BaseModel\<close>: for each of the three abstract methods, its implementation
  when the subclass has one. The subclass keeps \<open>__init__\<close>, \<open>match\<close> and
  \<open>get_default_conv_template\<close> of the base class.
\<close>

record ('c, 'm, 't, 'p, 'r) backend_class =
  init_model :: "('c, 'm \<times> 't) py_method option"
  predict_stream :: "('p \<Rightarrow> error + 'r list) option"
  predict :: "('p \<Rightarrow> error + 'r) option"

record ('m, 't) BaseModel =
  model :: 'm
  tokenizer :: 't

definition abstract_methods :: "('c, 'm, 't, 'p, 'r) backend_class \<Rightarrow> string list" where
  "abstract_methods cls =
     (if init_model cls = None then [''init_model''] else [])
     @ (if predict cls = None then [''predict''] else [])
     @ (if predict_stream cls = None then [''predict_stream''] else [])"

text \<open>
  \<open>__init__\<close> calls \<open>self.init_model()\<close> with no argument and unpacks the pair it
  returns. The second component of the outcome counts how often the body of
  \<open>init_model\<close> was run.
\<close>

definition BaseModel_init ::
  "('c, 'm \<times> 't) py_method \<Rightarrow> (error + ('m, 't) BaseModel) \<times> nat" where
  "BaseModel_init impl =
     (case bind_args impl [] of
        Inl te \<Rightarrow> (Inl (TypeError te), 0)
      | Inr config \<Rightarrow>
          (case body impl config of
             Inl e \<Rightarrow> (Inl e, 1)
           | Inr (m, t) \<Rightarrow> (Inr \<lparr>model = m, tokenizer = t\<rparr>, 1)))"

text \<open>
  Instantiating a subclass: \<open>ABC\<close> refuses a class that still has abstract methods,
  otherwise \<open>__init__\<close> runs.
\<close>

definition BaseModel_new ::
  "('c, 'm, 't, 'p, 'r) backend_class \<Rightarrow> (error + ('m, 't) BaseModel) \<times> nat" where
  "BaseModel_new cls =
     (case init_model cls of
        Some impl \<Rightarrow>
          if abstract_methods cls = [] then BaseModel_init impl
          else (Inl (TypeError (AbstractInstantiation (abstract_methods cls))), 0)
      | None \<Rightarrow> (Inl (TypeError (AbstractInstantiation (abstract_methods cls))), 0))"

definition BaseModel_match :: "('m, 't) BaseModel \<Rightarrow> string \<Rightarrow> bool" where
  "BaseModel_match self model_path = True"

text \<open>
  \<open>get_conv_template\<close> is the registry of the fastchat library, a parameter from
  template names to what a lookup yields.
\<close>

definition get_default_conv_template ::
  "(string \<Rightarrow> 'conv) \<Rightarrow> ('m, 't) BaseModel \<Rightarrow> string \<Rightarrow> 'conv" where
  "get_default_conv_template get_conv_template self model_path =
     get_conv_template ''one_shot''"

section \<open>Concrete constructor calls\<close>

definition streaming_kwargs :: DataTrainingArguments_kwargs where
  "streaming_kwargs = DataTrainingArguments_no_kwargs\<lparr>dt_streaming := Given True\<rparr>"

definition streaming_dataset_kwargs :: DataTrainingArguments_kwargs where
  "streaming_dataset_kwargs =
     DataTrainingArguments_no_kwargs
       \<lparr>dt_dataset_name := Given (Some ''squad''), dt_streaming := Given True\<rparr>"

definition bin_file_kwargs :: DataTrainingArguments_kwargs where
  "bin_file_kwargs =
     DataTrainingArguments_no_kwargs\<lparr>dt_train_file := Given (Some ''data.bin'')\<rparr>"

definition streaming_bin_file_kwargs :: DataTrainingArguments_kwargs where
  "streaming_bin_file_kwargs = bin_file_kwargs\<lparr>dt_streaming := Given True\<rparr>"

definition json_csv_kwargs :: DataTrainingArguments_kwargs where
  "json_csv_kwargs =
     DataTrainingArguments_no_kwargs
       \<lparr>dt_train_file := Given (Some ''train.json''),
        dt_validation_file := Given (Some ''dev.csv'')\<rparr>"

definition big_dropout_kwargs :: FinetuneArguments_kwargs where
  "big_dropout_kwargs = FinetuneArguments_no_kwargs\<lparr>ft_lora_dropout := Given (3 / 2)\<rparr>"

section \<open>Splitting a path at its dots\<close>

lemma split_str_not_Nil: "split_str sep s \<noteq> []"
  by (induction s) auto

lemma split_str_no_sep: "sep \<notin> set s \<Longrightarrow> split_str sep s = [s]"
  by (induction s) auto

lemma split_str_tl: "sep \<in> set s \<Longrightarrow> tl (split_str sep s) \<noteq> []"
  by (induction s) (auto simp: split_str_not_Nil)

lemma last_split_str_Cons:
  "last (split_str sep (c # cs)) =
     (if c = sep \<or> sep \<in> set cs then last (split_str sep cs) else c # cs)"
proof (cases "c = sep \<or> sep \<in> set cs")
  case False
  then show ?thesis by (simp add: split_str_no_sep)
next
  case True
  show ?thesis
  proof (cases "c = sep")
    case True
    then show ?thesis by (simp add: split_str_not_Nil)
  next
    case False
    with True have "sep \<in> set cs" by simp
    then have "tl (split_str sep cs) \<noteq> []" by (rule split_str_tl)
    with False \<open>sep \<in> set cs\<close> show ?thesis by (simp add: last_tl)
  qed
qed

lemma last_split_str_append:
  "last (split_str sep (p @ sep # e)) = last (split_str sep e)"
  by (induction p) (simp_all only: append.simps last_split_str_Cons, auto)

lemma last_split_str_sep_free: "sep \<notin> set (last (split_str sep s))"
  by (induction s) (simp, simp only: last_split_str_Cons, auto)

lemma last_split_str_suffix:
  "s = last (split_str sep s) \<or> (\<exists>p. s = p @ sep # last (split_str sep s))"
proof (induction s)
  case Nil
  show ?case by simp
next
  case (Cons c cs)
  show ?case
  proof (cases "c = sep \<or> sep \<in> set cs")
    case False
    then show ?thesis by (simp only: last_split_str_Cons) simp
  next
    case True
    then have eq: "last (split_str sep (c # cs)) = last (split_str sep cs)"
      by (simp only: last_split_str_Cons) simp
    from Cons show ?thesis
    proof
      assume whole: "cs = last (split_str sep cs)"
      with last_split_str_sep_free [of sep cs] have "sep \<notin> set cs" by simp
      with True have "c = sep" by simp
      with whole have "c # cs = [] @ sep # last (split_str sep cs)" by simp
      with eq show ?thesis by metis
    next
      assume "\<exists>p. cs = p @ sep # last (split_str sep cs)"
      then obtain p where "cs = p @ sep # last (split_str sep cs)" ..
      then have "c # cs = (c # p) @ sep # last (split_str sep cs)" by simp
      with eq show ?thesis by metis
    qed
  qed
qed

text \<open>
  The extension the code computes is the one a reader expects: \<open>e\<close> is the extension of
  a path exactly when \<open>e\<close> has no dot and the path is \<open>e\<close> itself or ends in a dot
  followed by \<open>e\<close>.
\<close>

lemma file_extension_iff:
  "file_extension path = e \<longleftrightarrow>
     CHR ''.'' \<notin> set e \<and> (path = e \<or> (\<exists>stem. path = stem @ ''.'' @ e))"
proof
  assume "file_extension path = e"
  with last_split_str_sep_free [of "CHR ''.''" path]
       last_split_str_suffix [of path "CHR ''.''"]
  show "CHR ''.'' \<notin> set e \<and> (path = e \<or> (\<exists>stem. path = stem @ ''.'' @ e))"
    by (auto simp: file_extension_def)
next
  assume r: "CHR ''.'' \<notin> set e \<and> (path = e \<or> (\<exists>stem. path = stem @ ''.'' @ e))"
  then have free: "CHR ''.'' \<notin> set e" ..
  from r have "path = e \<or> (\<exists>stem. path = stem @ ''.'' @ e)" ..
  then show "file_extension path = e"
  proof
    assume "path = e"
    with free show ?thesis by (simp add: file_extension_def split_str_no_sep)
  next
    assume "\<exists>stem. path = stem @ ''.'' @ e"
    then obtain stem where "path = stem @ CHR ''.'' # e" by auto
    with free show ?thesis
      by (simp add: file_extension_def last_split_str_append split_str_no_sep)
  qed
qed

lemma file_extension_examples:
  "file_extension ''data.bin'' = ''bin''"
  "file_extension ''train.json'' = ''json''"
  "file_extension ''dev.csv'' = ''csv''"
  "file_extension ''archive.tar.txt'' = ''txt''"
  "file_extension ''csv'' = ''csv''"
  "file_extension ''notes.'' = []"
  by (simp_all add: file_extension_def)

section \<open>What \<open>__post_init__\<close> does\<close>

lemma assert_extension_bad:
  "bad_extension file \<Longrightarrow>
   assert_extension debug msg file = (if debug then Inl (AssertionError msg) else Inr ())"
  by (auto simp: bad_extension_def assert_extension_def py_assert_def split: option.splits)

lemma assert_extension_good:
  "\<not> bad_extension file \<Longrightarrow> assert_extension debug msg file = Inr ()"
  by (auto simp: bad_extension_def assert_extension_def py_assert_def split: option.splits)

lemma post_init_version:
  "streaming self \<Longrightarrow> datasets_requirement rv = Some msg \<Longrightarrow>
   DataTrainingArguments_post_init debug rv self = Inl (ImportError msg)"
  by (simp add: DataTrainingArguments_post_init_def)

lemma post_init_checked:
  "\<not> streaming self \<or> datasets_requirement rv = None \<Longrightarrow>
   DataTrainingArguments_post_init debug rv self =
     (if no_data_source self
      then Inl (ValueError ''Need either a dataset name or a training/validation file.'')
      else if debug \<and> bad_extension (train_file self)
      then Inl (AssertionError ''`train_file` should be a csv, a json or a txt file.'')
      else if debug \<and> bad_extension (validation_file self)
      then Inl (AssertionError ''`validation_file` should be a csv, a json or a txt file.'')
      else Inr ())"
  by (cases "bad_extension (train_file self)"; cases "bad_extension (validation_file self)")
     (auto simp: DataTrainingArguments_post_init_def no_data_source_def
        assert_extension_bad assert_extension_good)

lemma datasets_requirement_available: "datasets_requirement version_available = None"
  by (simp add: datasets_requirement_def version_available_def)

lemma datasets_requirement_missing:
  "datasets_requirement version_missing =
     Some ''The streaming feature requires `datasets>=2.0.0`''"
  by (simp add: datasets_requirement_def version_missing_def)

lemma fields_no_kwargs:
  "no_data_source (DataTrainingArguments_fields DataTrainingArguments_no_kwargs)"
  "\<not> streaming (DataTrainingArguments_fields DataTrainingArguments_no_kwargs)"
  by (simp_all add: no_data_source_def DataTrainingArguments_fields_def
        DataTrainingArguments_no_kwargs_def)

lemma fields_streaming_kwargs:
  "no_data_source (DataTrainingArguments_fields streaming_kwargs)"
  "streaming (DataTrainingArguments_fields streaming_kwargs)"
  by (simp_all add: no_data_source_def DataTrainingArguments_fields_def
        streaming_kwargs_def DataTrainingArguments_no_kwargs_def)

lemma fields_streaming_dataset_kwargs:
  "streaming (DataTrainingArguments_fields streaming_dataset_kwargs)"
  "valid_data_source (DataTrainingArguments_fields streaming_dataset_kwargs)"
  by (simp_all add: valid_data_source_def no_data_source_def bad_extension_def
        DataTrainingArguments_fields_def streaming_dataset_kwargs_def
        DataTrainingArguments_no_kwargs_def)

lemma fields_bin_file_kwargs:
  "\<not> streaming (DataTrainingArguments_fields bin_file_kwargs)"
  "train_file (DataTrainingArguments_fields bin_file_kwargs) = Some ''data.bin''"
  "bad_extension (train_file (DataTrainingArguments_fields bin_file_kwargs))"
  by (simp_all add: bad_extension_def file_extension_examples
        DataTrainingArguments_fields_def bin_file_kwargs_def
        DataTrainingArguments_no_kwargs_def)

lemma fields_streaming_bin_file_kwargs:
  "streaming (DataTrainingArguments_fields streaming_bin_file_kwargs)"
  "train_file (DataTrainingArguments_fields streaming_bin_file_kwargs) = Some ''data.bin''"
  "bad_extension (train_file (DataTrainingArguments_fields streaming_bin_file_kwargs))"
  by (simp_all add: bad_extension_def file_extension_examples
        DataTrainingArguments_fields_def streaming_bin_file_kwargs_def bin_file_kwargs_def
        DataTrainingArguments_no_kwargs_def)

lemma fields_json_csv_kwargs:
  "\<not> bad_extension (train_file (DataTrainingArguments_fields json_csv_kwargs))"
  "\<not> bad_extension (validation_file (DataTrainingArguments_fields json_csv_kwargs))"
  "\<not> no_data_source (DataTrainingArguments_fields json_csv_kwargs)"
  "\<not> streaming (DataTrainingArguments_fields json_csv_kwargs)"
  by (simp_all add: bad_extension_def no_data_source_def file_extension_examples
        DataTrainingArguments_fields_def json_csv_kwargs_def
        DataTrainingArguments_no_kwargs_def)

lemma init_version:
  "streaming (DataTrainingArguments_fields kw) \<Longrightarrow> datasets_requirement rv = Some msg \<Longrightarrow>
   DataTrainingArguments_init debug rv kw = Inl (ImportError msg)"
  by (simp add: DataTrainingArguments_init_def post_init_version)

lemma init_checked:
  "\<not> streaming (DataTrainingArguments_fields kw) \<or> datasets_requirement rv = None \<Longrightarrow>
   DataTrainingArguments_init debug rv kw =
     (if no_data_source (DataTrainingArguments_fields kw)
      then Inl (ValueError ''Need either a dataset name or a training/validation file.'')
      else if debug \<and> bad_extension (train_file (DataTrainingArguments_fields kw))
      then Inl (AssertionError ''`train_file` should be a csv, a json or a txt file.'')
      else if debug \<and> bad_extension (validation_file (DataTrainingArguments_fields kw))
      then Inl (AssertionError ''`validation_file` should be a csv, a json or a txt file.'')
      else Inr (DataTrainingArguments_fields kw))"
  by (simp add: DataTrainingArguments_init_def Let_def post_init_checked)

lemma bad_extension_is_source:
  "bad_extension (train_file self) \<or> bad_extension (validation_file self) \<Longrightarrow>
   \<not> no_data_source self"
  by (auto simp: bad_extension_def no_data_source_def)

text \<open>
  An accepted construction with both files set; a file of unknown extension, refused when
  assertions are on and accepted when Python runs with \<open>-O\<close>.
\<close>

lemma init_json_csv:
  "DataTrainingArguments_init debug version_missing json_csv_kwargs =
     Inr (DataTrainingArguments_fields json_csv_kwargs)"
  using fields_json_csv_kwargs by (simp add: init_checked)

lemma init_bin_file:
  "DataTrainingArguments_init True version_missing bin_file_kwargs =
     Inl (AssertionError ''`train_file` should be a csv, a json or a txt file.'')"
  "DataTrainingArguments_init False version_missing bin_file_kwargs =
     Inr (DataTrainingArguments_fields bin_file_kwargs)"
  using fields_bin_file_kwargs
    bad_extension_is_source [of "DataTrainingArguments_fields bin_file_kwargs"]
  by (simp_all add: init_checked)

section \<open>Constructors that cannot run without arguments\<close>

lemma ModelArguments_without_name:
  "ModelArguments_init ModelArguments_no_kwargs =
     Inl (TypeError (MissingArgument ''model_name_or_path''))"
  by (simp add: ModelArguments_init_def ModelArguments_no_kwargs_def)

lemma DataTrainingArguments_without_arguments:
  "DataTrainingArguments_init debug rv DataTrainingArguments_no_kwargs =
     Inl (ValueError ''Need either a dataset name or a training/validation file.'')"
  using fields_no_kwargs by (simp add: init_checked)

lemma default_finetune_config_raises:
  "default_finetune_config debug rv ta h =
     (Inl (TypeError (MissingArgument ''model_name_or_path'')), h)"
  by (simp add: default_finetune_config_def ModelArguments_without_name)

text \<open>
  Every construction of \<open>NeuralChatConfig\<close> that gets no \<open>finetune_config\<close>, or gets
  \<open>None\<close> for it, fails in this way; a construction that gets one succeeds, and then
  the synthesized \<open>optimize_config\<close> has the documented defaults.
\<close>

lemma NeuralChatConfig_without_finetune_config:
  "or_default (nc_finetune_config kw) None = None \<Longrightarrow>
   NeuralChatConfig_init debug rv ta defaults kw h =
     (Inl (TypeError (MissingArgument ''model_name_or_path'')), h)"
  by (simp add: NeuralChatConfig_init_def default_finetune_config_raises)

lemma NeuralChatConfig_with_finetune_config:
  "NeuralChatConfig_init debug rv ta defaults
     (NeuralChatConfig_no_kwargs\<lparr>nc_finetune_config := Given (Some fc)\<rparr>) h =
     (Inr \<lparr>chat_model_name_or_path = ''meta-llama/Llama-2-70b-hf'', inputs = None,
           chat_device = ''auto'', chat_backend = ''auto'', retrieval = False,
           retrieval_type = None, txt2Image = False, audio_input = False,
           audio_output = False, server_mode = True, finetune_config = fc,
           optimize_config = OptimizationConfig_init defaults OptimizationConfig_no_kwargs,
           use_hpu_graphs = False\<rparr>, h)"
  by (simp add: NeuralChatConfig_init_def NeuralChatConfig_no_kwargs_def)

lemma OptimizationConfig_init_no_kwargs:
  "OptimizationConfig_init defaults OptimizationConfig_no_kwargs =
     \<lparr>mode = ''latency'', device = ''cpu'', backend = ''ipex'', approach = ''static'',
      precision = ''bf16'', excluded_precisions = excluded_precisions_default defaults,
      op_type_dict = None, op_name_dict = None, recipes = recipes_default defaults\<rparr>"
  by (simp add: OptimizationConfig_init_def OptimizationConfig_no_kwargs_def)

text \<open>
  The default list and dictionary are empty when the \<open>def\<close> statement has run, and
  they are shared: every construction without these arguments holds the same two
  references, so what one holder appends is seen through all of them.
\<close>

lemma OptimizationConfig_def_objects:
  "OptimizationConfig_def h dh = (defaults, h', dh') \<Longrightarrow>
   deref h' (excluded_precisions_default defaults) = Some []
   \<and> deref_dict dh' (recipes_default defaults) = Some []
   \<and> deref h (excluded_precisions_default defaults) = None
   \<and> deref_dict dh (recipes_default defaults) = None"
  by (auto simp: OptimizationConfig_def_def new_list_def new_dict_def deref_def
        deref_dict_def)

lemma OptimizationConfig_defaults_shared:
  "excluded_precisions (OptimizationConfig_init defaults OptimizationConfig_no_kwargs) =
     excluded_precisions
       (OptimizationConfig_init defaults (OptimizationConfig_no_kwargs\<lparr>oc_mode := Given m\<rparr>))"
  "recipes (OptimizationConfig_init defaults OptimizationConfig_no_kwargs) =
     recipes
       (OptimizationConfig_init defaults (OptimizationConfig_no_kwargs\<lparr>oc_mode := Given m\<rparr>))"
  by (simp_all add: OptimizationConfig_init_def OptimizationConfig_no_kwargs_def)

section \<open>Instantiating a backend class\<close>

lemma BaseModel_init_declared:
  "BaseModel_init (Method name None b) = (Inl (TypeError (MissingArgument name)), 0)"
  by (simp add: BaseModel_init_def)

text \<open>
  Construction goes through only for an \<open>init_model\<close> whose parameter has a default;
  its body then runs once, on that default.
\<close>

lemma BaseModel_init_defaulted:
  "b d = Inr (m, t) \<Longrightarrow>
   BaseModel_init (Method name (Some d) b) = (Inr \<lparr>model = m, tokenizer = t\<rparr>, 1)"
  by (simp add: BaseModel_init_def)

lemma BaseModel_new_abstract:
  "predict cls = None \<or> predict_stream cls = None \<or> init_model cls = None \<Longrightarrow>
   BaseModel_new cls = (Inl (TypeError (AbstractInstantiation (abstract_methods cls))), 0)"
  by (auto simp: BaseModel_new_def abstract_methods_def split: option.splits)

section \<open>The store of list objects\<close>

lemma deref_new_list:
  "new_list v h = (r, h') \<Longrightarrow>
   deref h r = None \<and> deref h' r = Some v \<and> take (length h) h' = h \<and> r = length h"
  by (auto simp: new_list_def deref_def)

lemma FinetuneArguments_init_no_kwargs:
  "FinetuneArguments_init FinetuneArguments_no_kwargs h =
     (\<lparr>lora_rank = 8, lora_alpha = 32, lora_dropout = float_0_1,
       lora_target_modules = length h, peft = Some ''lora''\<rparr>, h @ [[''q'', ''v'']])"
  by (simp add: FinetuneArguments_init_def FinetuneArguments_no_kwargs_def new_list_def)

section \<open>The claims\<close>

text \<open>
  C3. A construction of \<open>DataTrainingArguments\<close> in which \<open>dataset_name\<close>,
  \<open>train_file\<close> and \<open>validation_file\<close> are all unset, and in which streaming is off
  or the \<open>datasets\<close> requirement is met, fails with the \<open>ValueError\<close> for a missing
  data source.
\<close>

theorem missing_data_source_raises:
  assumes "no_data_source (DataTrainingArguments_fields kw)"
    and "\<not> streaming (DataTrainingArguments_fields kw) \<or> datasets_requirement rv = None"
  shows "DataTrainingArguments_init debug rv kw =
           Inl (ValueError ''Need either a dataset name or a training/validation file.'')"
  using assms by (simp add: DataTrainingArguments_init_def post_init_checked)

theorem missing_data_source_raises_witness:
  "no_data_source (DataTrainingArguments_fields DataTrainingArguments_no_kwargs)
   \<and> \<not> streaming (DataTrainingArguments_fields DataTrainingArguments_no_kwargs)
   \<and> no_data_source (DataTrainingArguments_fields streaming_kwargs)
   \<and> datasets_requirement version_available = None
   \<and> DataTrainingArguments_init True version_missing DataTrainingArguments_no_kwargs =
        Inl (ValueError ''Need either a dataset name or a training/validation file.'')
   \<and> DataTrainingArguments_init False version_available streaming_kwargs =
        Inl (ValueError ''Need either a dataset name or a training/validation file.'')"
  using fields_no_kwargs fields_streaming_kwargs(1) datasets_requirement_available
    missing_data_source_raises [of DataTrainingArguments_no_kwargs version_missing True]
    missing_data_source_raises [of streaming_kwargs version_available False]
  by simp

text \<open>
  C8. The \<open>match\<close> method of \<open>BaseModel\<close>, when a subclass does not override it,
  returns true for every model path.
\<close>

theorem match_always_true: "BaseModel_match self model_path = True"
  by (simp add: BaseModel_match_def)

text \<open>
  C9. The \<open>get_default_conv_template\<close> method of \<open>BaseModel\<close> returns, for every
  model path, what the external registry yields for the fixed name \<open>one_shot\<close>.
\<close>

theorem default_conv_template_one_shot:
  "get_default_conv_template get_conv_template self model_path =
     get_conv_template ''one_shot''"
  by (simp add: get_default_conv_template_def)

text \<open>
  C4 (as stated). The claim promises an assertion error for every construction with a file
  of an unknown extension. Two constructions with \<open>train_file = "data.bin"\<close> end
  otherwise. With streaming on and the \<open>datasets\<close> requirement unmet, the version
  check runs first and the construction fails with its \<open>ImportError\<close>. When Python
  runs with \<open>-O\<close>, the two \<open>assert\<close> statements are dropped and the construction
  succeeds.
\<close>

theorem unknown_extension_without_assertion_error:
  "train_file (DataTrainingArguments_fields streaming_bin_file_kwargs) = Some ''data.bin''
   \<and> train_file (DataTrainingArguments_fields bin_file_kwargs) = Some ''data.bin''
   \<and> file_extension ''data.bin'' = ''bin''
   \<and> bad_extension (Some ''data.bin'')
   \<and> DataTrainingArguments_init True version_missing streaming_bin_file_kwargs =
        Inl (ImportError ''The streaming feature requires `datasets>=2.0.0`'')
   \<and> \<not> is_AssertionError
          (DataTrainingArguments_init True version_missing streaming_bin_file_kwargs)
   \<and> DataTrainingArguments_init False version_available bin_file_kwargs =
        Inr (DataTrainingArguments_fields bin_file_kwargs)
   \<and> \<not> is_AssertionError
          (DataTrainingArguments_init False version_available bin_file_kwargs)"
proof -
  have first: "DataTrainingArguments_init True version_missing streaming_bin_file_kwargs =
      Inl (ImportError ''The streaming feature requires `datasets>=2.0.0`'')"
    using fields_streaming_bin_file_kwargs(1) datasets_requirement_missing
    by (rule init_version)
  have "\<not> no_data_source (DataTrainingArguments_fields bin_file_kwargs)"
    using fields_bin_file_kwargs(3) by (simp add: bad_extension_is_source)
  then have second: "DataTrainingArguments_init False version_available bin_file_kwargs =
      Inr (DataTrainingArguments_fields bin_file_kwargs)"
    using fields_bin_file_kwargs(1) by (simp add: init_checked)
  from first second fields_streaming_bin_file_kwargs(2,3) fields_bin_file_kwargs(2)
  show ?thesis by (simp add: file_extension_examples)
qed

text \<open>
  C4 (amended). A construction of \<open>DataTrainingArguments\<close> under an interpreter with
  assertions on (\<open>__debug__\<close> true, that is Python not run with \<open>-O\<close>), in which
  streaming is off or the \<open>datasets\<close> requirement is met, and in which
  \<open>train_file\<close> or \<open>validation_file\<close> is set with an extension outside csv, json
  and txt, fails with an assertion error. Conversely, a construction in which every file
  that is set has one of these extensions never fails with an assertion error, whatever
  the interpreter mode.
\<close>

theorem unknown_extension_raises:
  "(debug
      \<and> (\<not> streaming (DataTrainingArguments_fields kw) \<or> datasets_requirement rv = None)
      \<and> (bad_extension (train_file (DataTrainingArguments_fields kw))
           \<or> bad_extension (validation_file (DataTrainingArguments_fields kw)))
     \<longrightarrow> is_AssertionError (DataTrainingArguments_init debug rv kw))
   \<and> (\<not> bad_extension (train_file (DataTrainingArguments_fields kw))
        \<and> \<not> bad_extension (validation_file (DataTrainingArguments_fields kw))
     \<longrightarrow> \<not> is_AssertionError (DataTrainingArguments_init debug rv kw))"
proof (intro conjI impI)
  assume a: "debug
      \<and> (\<not> streaming (DataTrainingArguments_fields kw) \<or> datasets_requirement rv = None)
      \<and> (bad_extension (train_file (DataTrainingArguments_fields kw))
           \<or> bad_extension (validation_file (DataTrainingArguments_fields kw)))"
  then have on: debug ..
  from a have checked:
    "\<not> streaming (DataTrainingArguments_fields kw) \<or> datasets_requirement rv = None"
    by simp
  from a have bad: "bad_extension (train_file (DataTrainingArguments_fields kw))
      \<or> bad_extension (validation_file (DataTrainingArguments_fields kw))" by simp
  then have "\<not> no_data_source (DataTrainingArguments_fields kw)"
    by (rule bad_extension_is_source)
  with bad on show "is_AssertionError (DataTrainingArguments_init debug rv kw)"
    by (auto simp: init_checked [OF checked])
next
  assume good: "\<not> bad_extension (train_file (DataTrainingArguments_fields kw))
      \<and> \<not> bad_extension (validation_file (DataTrainingArguments_fields kw))"
  show "\<not> is_AssertionError (DataTrainingArguments_init debug rv kw)"
  proof (cases "streaming (DataTrainingArguments_fields kw)
      \<and> datasets_requirement rv \<noteq> None")
    case True
    then obtain msg where "datasets_requirement rv = Some msg" by auto
    with True show ?thesis by (simp add: init_version)
  next
    case False
    then have "\<not> streaming (DataTrainingArguments_fields kw)
        \<or> datasets_requirement rv = None" by simp
    with good show ?thesis by (simp add: init_checked)
  qed
qed

theorem unknown_extension_raises_witness:
  "\<not> streaming (DataTrainingArguments_fields bin_file_kwargs)
   \<and> bad_extension (train_file (DataTrainingArguments_fields bin_file_kwargs))
   \<and> is_AssertionError (DataTrainingArguments_init True version_missing bin_file_kwargs)
   \<and> \<not> bad_extension (train_file (DataTrainingArguments_fields json_csv_kwargs))
   \<and> \<not> bad_extension (validation_file (DataTrainingArguments_fields json_csv_kwargs))
   \<and> \<not> is_AssertionError
          (DataTrainingArguments_init True version_available json_csv_kwargs)"
  using fields_bin_file_kwargs(1,3) fields_json_csv_kwargs(1,2)
    unknown_extension_raises [of True bin_file_kwargs version_missing]
    unknown_extension_raises [of True json_csv_kwargs version_available]
  by simp

text \<open>
  C5. A construction of \<open>DataTrainingArguments\<close> with streaming on and a valid data
  source succeeds exactly when the \<open>datasets\<close> requirement is met, and yields the
  object with the given fields; when the requirement is unmet it fails with the
  \<open>ImportError\<close> of the version check.
\<close>

theorem streaming_requires_datasets_version:
  assumes "streaming (DataTrainingArguments_fields kw)"
    and "valid_data_source (DataTrainingArguments_fields kw)"
  shows "DataTrainingArguments_init debug rv kw =
           (case datasets_requirement rv of
              None \<Rightarrow> Inr (DataTrainingArguments_fields kw)
            | Some msg \<Rightarrow> Inl (ImportError msg))"
proof (cases "datasets_requirement rv")
  case None
  with assms(2) show ?thesis by (simp add: init_checked valid_data_source_def)
next
  case (Some msg)
  with assms(1) show ?thesis by (simp add: init_version)
qed

theorem streaming_requires_datasets_version_witness:
  "streaming (DataTrainingArguments_fields streaming_dataset_kwargs)
   \<and> valid_data_source (DataTrainingArguments_fields streaming_dataset_kwargs)
   \<and> DataTrainingArguments_init True version_available streaming_dataset_kwargs =
        Inr (DataTrainingArguments_fields streaming_dataset_kwargs)
   \<and> DataTrainingArguments_init True version_missing streaming_dataset_kwargs =
        Inl (ImportError ''The streaming feature requires `datasets>=2.0.0`'')"
  using fields_streaming_dataset_kwargs
    datasets_requirement_available datasets_requirement_missing
    streaming_requires_datasets_version [of streaming_dataset_kwargs True version_available]
    streaming_requires_datasets_version [of streaming_dataset_kwargs True version_missing]
  by simp

text \<open>
  C10. The version check comes before the data-source check: a construction of
  \<open>DataTrainingArguments\<close> with streaming on and the \<open>datasets\<close> requirement unmet
  fails with the \<open>ImportError\<close> of the version check, whatever the data sources are
  (also when all three are unset), and so never with the \<open>ValueError\<close> for a missing
  data source.
\<close>

theorem version_check_comes_first:
  assumes "streaming (DataTrainingArguments_fields kw)"
    and "datasets_requirement rv = Some msg"
  shows "DataTrainingArguments_init debug rv kw = Inl (ImportError msg)
         \<and> DataTrainingArguments_init debug rv kw \<noteq>
             Inl (ValueError ''Need either a dataset name or a training/validation file.'')"
  using assms by (simp add: init_version)

theorem version_check_comes_first_witness:
  "streaming (DataTrainingArguments_fields streaming_kwargs)
   \<and> no_data_source (DataTrainingArguments_fields streaming_kwargs)
   \<and> datasets_requirement version_missing =
        Some ''The streaming feature requires `datasets>=2.0.0`''
   \<and> DataTrainingArguments_init True version_missing streaming_kwargs =
        Inl (ImportError ''The streaming feature requires `datasets>=2.0.0`'')"
  using fields_streaming_kwargs datasets_requirement_missing
    version_check_comes_first [of streaming_kwargs version_missing _ True]
  by simp

text \<open>
  C1. The claim says that \<open>NeuralChatConfig()\<close>, called without \<open>finetune_config\<close>
  and \<open>optimize_config\<close>, succeeds with synthesized defaults. In the code the call
  fails: the synthesis starts with \<open>ModelArguments()\<close>, whose required
  \<open>model_name_or_path\<close> gets no argument, so the \<open>TypeError\<close> leaves the constructor.
\<close>

theorem default_neural_chat_config_raises:
  "NeuralChatConfig_init debug rv ta defaults NeuralChatConfig_no_kwargs h =
     (Inl (TypeError (MissingArgument ''model_name_or_path'')), h)"
  by (simp add: NeuralChatConfig_without_finetune_config NeuralChatConfig_no_kwargs_def)

text \<open>
  C2. The claim says that a subclass implementing \<open>init_model\<close> with the declared
  signature, \<open>predict\<close> and \<open>predict_stream\<close> can be constructed, with
  \<open>init_model\<close> run once. In the code the construction fails: \<open>__init__\<close> calls
  \<open>self.init_model()\<close> without the \<open>config\<close> argument the declared signature
  requires, so the call raises \<open>TypeError\<close> and the body of \<open>init_model\<close> never runs.
\<close>

theorem declared_init_model_raises:
  "BaseModel_new
     \<lparr>init_model = Some (Method ''config'' None b), predict_stream = Some ps,
      predict = Some p\<rparr> =
     (Inl (TypeError (MissingArgument ''config'')), 0)"
  by (simp add: BaseModel_new_def abstract_methods_def BaseModel_init_declared)

text \<open>
  C6 (as stated). The claim promises \<open>lora_dropout\<close> in the interval from 0 (included)
  to 1 (excluded) for every constructed \<open>FinetuneArguments\<close>. The constructor checks
  nothing: \<open>FinetuneArguments(lora_dropout=1.5)\<close> succeeds and holds 1.5.
\<close>

theorem dropout_outside_unit_interval:
  "lora_dropout (fst (FinetuneArguments_init big_dropout_kwargs [])) = 3 / 2
   \<and> \<not> (0 \<le> lora_dropout (fst (FinetuneArguments_init big_dropout_kwargs []))
         \<and> lora_dropout (fst (FinetuneArguments_init big_dropout_kwargs [])) < 1)"
  by (simp add: FinetuneArguments_init_def big_dropout_kwargs_def
        FinetuneArguments_no_kwargs_def new_list_def)

text \<open>
  C6 (amended). Every construction of \<open>FinetuneArguments\<close> succeeds and stores in
  \<open>lora_dropout\<close> the value the caller gives, unchecked; when the caller gives none,
  the field holds the default 0.1, which lies in the interval from 0 (included) to 1
  (excluded).
\<close>

theorem dropout_stored_as_given:
  "lora_dropout (fst (FinetuneArguments_init kw h)) = or_default (ft_lora_dropout kw) float_0_1
   \<and> 0 \<le> float_0_1 \<and> float_0_1 < 1"
  by (simp add: FinetuneArguments_init_def float_0_1_def split: prod.splits)

text \<open>
  C7. \<open>FinetuneArguments()\<close> without arguments yields \<open>lora_rank = 8\<close>,
  \<open>lora_alpha = 32\<close>, \<open>peft = "lora"\<close> and a \<open>lora_target_modules\<close> list
  \<open>["q", "v"]\<close> that is a new object of each construction: its reference is not in
  the store before the call, the objects already in the store stay as they are, and a
  second construction yields another reference, both lists being \<open>["q", "v"]\<close>.
\<close>

theorem finetune_arguments_defaults:
  "(let (a, h1) = FinetuneArguments_init FinetuneArguments_no_kwargs h;
        (b, h2) = FinetuneArguments_init FinetuneArguments_no_kwargs h1
    in lora_rank a = 8 \<and> lora_alpha a = 32 \<and> peft a = Some ''lora''
       \<and> deref h1 (lora_target_modules a) = Some [''q'', ''v'']
       \<and> deref h (lora_target_modules a) = None
       \<and> take (length h) h1 = h
       \<and> lora_target_modules b \<noteq> lora_target_modules a
       \<and> deref h2 (lora_target_modules a) = Some [''q'', ''v'']
       \<and> deref h2 (lora_target_modules b) = Some [''q'', ''v''])"
  by (simp add: FinetuneArguments_init_no_kwargs deref_def nth_append)

end
